theory Spec2Isabelle
  imports Main
begin

section \<open>JavaScript strings and arrays\<close>

text \<open>
  A JavaScript string is modelled as a \<open>string\<close>; a \<open>Buffer\<close> (file content) as the list of
  its bytes, again a \<open>char list\<close>. An optional argument or field (\<open>x?: T\<close>) is a
  \<open>T option\<close>, \<open>None\<close> standing for \<open>undefined\<close>.
\<close>

type_synonym bytes = "char list"

text \<open>\<open>Array.prototype.join(sep)\<close>.\<close>

fun join_with :: "string \<Rightarrow> string list \<Rightarrow> string" where
  "join_with sep [] = []"
| "join_with sep [x] = x"
| "join_with sep (x # y # ys) = x @ sep @ join_with sep (y # ys)"

text \<open>
  \<open>String.prototype.split(c)\<close> for a one-character separator: the empty string splits into
  one empty piece, and every separator starts a new piece.
\<close>

fun split_on :: "char \<Rightarrow> string \<Rightarrow> string list" where
  "split_on c [] = [[]]"
| "split_on c (x # xs) =
     (if x = c then [] # split_on c xs
      else (case split_on c xs of
              [] \<Rightarrow> [[x]]
            | s # ss \<Rightarrow> (x # s) # ss))"

text \<open>
  \<open>new Set(xs)\<close> followed by a spread: the elements of \<open>xs\<close> in the order of their first
  occurrence. \<open>set_add_all\<close> is the constructor's loop, adding one element at a time.
\<close>

fun set_add_all :: "'a list \<Rightarrow> 'a list \<Rightarrow> 'a list" where
  "set_add_all seen [] = seen"
| "set_add_all seen (x # xs) =
     set_add_all (if x \<in> set seen then seen else seen @ [x]) xs"

definition new_Set :: "'a list \<Rightarrow> 'a list" where
  "new_Set xs = set_add_all [] xs"

text \<open>Template-literal interpolation of a non-negative integer (decimal digits).\<close>

definition digit_char :: "nat \<Rightarrow> char" where
  "digit_char d = char_of (48 + d)"

fun string_of_nat :: "nat \<Rightarrow> string" where
  "string_of_nat n =
     (if n < 10 then [digit_char n]
      else string_of_nat (n div 10) @ [digit_char (n mod 10)])"

declare string_of_nat.simps [simp del]

section \<open>The POSIX flavour of \<open>node:path\<close>\<close>

text \<open>
  The source calls \<open>path.join\<close>, \<open>path.relative\<close> and \<open>path.parse\<close> of the Node.js runtime.
  They are modelled here after the runtime's POSIX implementation, on the segments between
  separators instead of on character indices.

  \<open>normalizeString\<close>: empty segments and \<open>.\<close> are dropped; \<open>..\<close> removes the segment before
  it, unless there is none or it is itself \<open>..\<close>, in which case \<open>..\<close> is kept when the path
  may climb above its start and dropped otherwise.
\<close>

fun normalizeString :: "bool \<Rightarrow> string list \<Rightarrow> string list \<Rightarrow> string list" where
  "normalizeString allowAboveRoot res [] = res"
| "normalizeString allowAboveRoot res (s # ss) =
     (if s = [] \<or> s = ''.'' then normalizeString allowAboveRoot res ss
      else if s = ''..'' then
        (if res \<noteq> [] \<and> last res \<noteq> ''..''
           then normalizeString allowAboveRoot (butlast res) ss
         else if allowAboveRoot
           then normalizeString allowAboveRoot (res @ [''..'']) ss
         else normalizeString allowAboveRoot res ss)
      else normalizeString allowAboveRoot (res @ [s]) ss)"

definition path_normalize :: "string \<Rightarrow> string" where
  "path_normalize p =
     (if p = [] then ''.''
      else
        let isAbsolute = (hd p = CHR ''/'');
            trailingSeparator = (last p = CHR ''/'');
            q = join_with ''/'' (normalizeString (\<not> isAbsolute) [] (split_on CHR ''/'' p))
        in if q = [] then
             (if isAbsolute then ''/'' else if trailingSeparator then ''./'' else ''.'')
           else
             (let q' = (if trailingSeparator then q @ ''/'' else q)
              in if isAbsolute then CHR ''/'' # q' else q'))"

text \<open>\<open>path.join(...args)\<close>: the non-empty arguments, joined by \<open>/\<close> and normalized.\<close>

definition path_join :: "string list \<Rightarrow> string" where
  "path_join args =
     (let joined = filter (\<lambda>a. a \<noteq> []) args
      in if joined = [] then ''.'' else path_normalize (join_with ''/'' joined))"

text \<open>
  \<open>path.resolve(p)\<close> with the working directory \<open>wd\<close> (an absolute path): the segments of
  the absolute, normalized path, without trailing separator.
\<close>

definition resolve_segments :: "string \<Rightarrow> string \<Rightarrow> string list" where
  "resolve_segments wd p =
     (let resolved = (if p \<noteq> [] \<and> hd p = CHR ''/'' then p
                      else if p = [] then wd else wd @ ''/'' @ p)
      in normalizeString False [] (split_on CHR ''/'' resolved))"

fun strip_common :: "string list \<Rightarrow> string list \<Rightarrow> string list \<times> string list" where
  "strip_common (a # as) (b # bs) =
     (if a = b then strip_common as bs else (a # as, b # bs))"
| "strip_common as bs = (as, bs)"

text \<open>
  \<open>path.relative(from, to)\<close>: both paths are resolved, their common leading segments are
  dropped, every remaining segment of \<open>from\<close> becomes \<open>..\<close>, and the remaining segments of
  \<open>to\<close> follow.
\<close>

definition path_relative :: "string \<Rightarrow> string \<Rightarrow> string \<Rightarrow> string" where
  "path_relative wd from to =
     (if from = to then []
      else
        (case strip_common (resolve_segments wd from) (resolve_segments wd to) of
           (fs, ts) \<Rightarrow> join_with ''/'' (map (\<lambda>_. ''..'') fs @ ts)))"

record ParsedPath =
  root :: string
  dir :: string
  base :: string
  ext :: string
  name :: string

text \<open>
  \<open>path.parse(p)\<close>. Trailing separators are skipped; \<open>base\<close> is what follows the last
  remaining separator and \<open>dir\<close> what precedes it (\<open>/\<close> for an absolute path with no inner
  separator). \<open>ext\<close> starts at the last dot of \<open>base\<close>, and is empty when \<open>base\<close> has no dot,
  when its last dot is its first character, or when \<open>base\<close> is \<open>..\<close>. The runtime misses the
  last exception for an absolute path with no inner separator (\<open>atStart\<close>): \<open>/..\<close> parses to
  the name \<open>.\<close> and the extension \<open>.\<close>.
\<close>

definition split_ext :: "bool \<Rightarrow> string \<Rightarrow> string \<times> string" where
  "split_ext atStart b =
     (let rb = rev b;
          after = takeWhile (\<lambda>c. c \<noteq> CHR ''.'') rb;
          rest = dropWhile (\<lambda>c. c \<noteq> CHR ''.'') rb
      in if rest = [] then (b, [])
         else if tl rest = [] then (b, [])
         else if after = [] \<and> tl rest = ''.'' \<and> \<not> atStart then (b, [])
         else (rev (tl rest), CHR ''.'' # rev after))"

definition path_parse :: "string \<Rightarrow> ParsedPath" where
  "path_parse p =
     (if p = [] then \<lparr>root = [], dir = [], base = [], ext = [], name = []\<rparr>
      else
        let isAbsolute = (hd p = CHR ''/'');
            body = (if isAbsolute then tl p else p);
            rb = dropWhile (\<lambda>c. c = CHR ''/'') (rev body);
            b = rev (takeWhile (\<lambda>c. c \<noteq> CHR ''/'') rb);
            rest = dropWhile (\<lambda>c. c \<noteq> CHR ''/'') rb;
            d = (if rest \<noteq> [] then (if isAbsolute then ''/'' else []) @ rev (tl rest)
                 else if isAbsolute then ''/'' else [])
        in \<lparr>root = (if isAbsolute then ''/'' else []), dir = d, base = b,
            ext = snd (split_ext (isAbsolute \<and> rest = []) b),
            name = fst (split_ext (isAbsolute \<and> rest = []) b)\<rparr>)"

section \<open>The environment of the program\<close>

text \<open>
  What the program reads from its surroundings: the working directory (\<open>process.cwd()\<close>, an
  absolute path), the glob expansion \<open>fs.globSync\<close>, the regular-file test
  \<open>fs.statSync(p).isFile()\<close> and the resolver of the package \<open>@burmajs/mime\<close>, which returns
  an object whose fields \<open>type\<close> and \<open>typeOf\<close> may be undefined.
\<close>

record MimeInfo =
  type :: "string option"
  typeOf :: "string option"

record Env =
  process_cwd :: string
  fs_globSync :: "string \<Rightarrow> string list"
  fs_isFile :: "string \<Rightarrow> bool"
  mimeType :: "string \<Rightarrow> MimeInfo"

record GenerateRoutes =
  rootPath :: "string option"
  staticDir :: "string option"
  fileExt :: "string list option"
  warning :: "bool option"
  ignore :: "string list option"

record RouteObject =
  "file" :: string
  url :: string
  mime :: string
  typeofMime :: string
  base :: string

section \<open>Collecting the files\<close>

text \<open>The embedded 404 document, character for character.\<close>

definition html404 :: string where
  \<open>html404 =
     ''\<newline>'' @
     ''<!DOCTYPE html>\<newline>'' @
     ''<html lang="en">\<newline>'' @
     ''  <head>\<newline>'' @
     ''    <meta charset="UTF-8" />\<newline>'' @
     ''    <meta name="viewport" content="width=device-width, initial-scale=1.0" />\<newline>'' @
     ''    <title>404</title>\<newline>'' @
     ''    <style>\<newline>'' @
     ''      main {\<newline>'' @
     ''        position: absolute;\<newline>'' @
     ''        top: 50%;\<newline>'' @
     ''        left: 50%;\<newline>'' @
     ''        transform: translate(-50%, -50%);\<newline>'' @
     ''        color: #888;\<newline>'' @
     ''        text-align: center;\<newline>'' @
     ''      }\<newline>'' @
     ''      a {\<newline>'' @
     ''        text-decoration: none;\<newline>'' @
     ''        padding: 7px;\<newline>'' @
     ''        border: 1px solid #888;\<newline>'' @
     ''        color: #888;\<newline>'' @
     ''      }\<newline>'' @
     ''    </style>\<newline>'' @
     ''  </head>\<newline>'' @
     ''  <body>\<newline>'' @
     ''    <main>\<newline>'' @
     ''      <h1>404 Not Found</h1>\<newline>'' @
     ''      <br />\<newline>'' @
     ''      <a href="/">Home</a>\<newline>'' @
     ''    </main>\<newline>'' @
     ''  </body>\<newline>'' @
     ''</html>\<newline>'' @
     ''\<newline>''\<close>

text \<open>
  \<open>_getFiles\<close>: the glob expansion of the pattern. Detaching the process's warning listeners
  (when \<open>warning\<close> is false) has no effect on the result and is not modelled.
\<close>

definition getFiles_raw :: "Env \<Rightarrow> string \<Rightarrow> bool \<Rightarrow> string list" where
  "getFiles_raw env pattern warning' = fs_globSync env pattern"

definition isFile :: "Env \<Rightarrow> string \<Rightarrow> bool" where
  "isFile env path = fs_isFile env path"

definition createPattern :: "string \<Rightarrow> string list option \<Rightarrow> string" where
  "createPattern dirtpath ext' =
     (case ext' of
        None \<Rightarrow> dirtpath @ ''/**/*''
      | Some e \<Rightarrow>
          if length e = 1 then
            (let ex = join_with '','' e in dirtpath @ ''/**/*.'' @ ex)
          else
            (let ex = ''{'' @ join_with '','' e @ ''}'' in dirtpath @ ''/**/*.'' @ ex))"

definition default_ign :: "string list" where
  "default_ign =
     [''node_modules'', ''tsconfig.json'', ''README.md'', ''package.json'',
      ''package-lock.json'', ''LICENSE'']"

definition createIgnores :: "string list option \<Rightarrow> string list" where
  "createIgnores ignore' =
     (let ign = default_ign;
          igns = (case ignore' of Some ig \<Rightarrow> ig @ ign | None \<Rightarrow> ign)
      in new_Set igns)"

text \<open>\<open>path.sep\<close> is \<open>/\<close>; \<open>ignsSet\<close> is the JavaScript \<open>Set\<close>, read only through \<open>has\<close>.\<close>

definition filterFiles :: "Env \<Rightarrow> string list \<Rightarrow> string set \<Rightarrow> string list" where
  "filterFiles env files ignsSet =
     (let fls = filter (\<lambda>file.
                  let sgs = split_on CHR ''/'' file
                  in \<not> list_ex (\<lambda>sg. sg \<in> ignsSet) sgs) files
      in filter (isFile env) fls)"

definition getFiles ::
  "Env \<Rightarrow> string option \<Rightarrow> string list option \<Rightarrow> bool \<Rightarrow> string list option \<Rightarrow> string list"
where
  "getFiles env staticDir' fileExt' warning' ignore' =
     (let cwd = process_cwd env;
          dirPath = path_join [cwd, (case staticDir' of None \<Rightarrow> ''.'' | Some d \<Rightarrow> d)];
          pattern = createPattern dirPath fileExt';
          fls = getFiles_raw env pattern warning';
          ignsSet = set (new_Set (createIgnores ignore'))
      in filterFiles env fls ignsSet)"

section \<open>Generating the routes\<close>

text \<open>
  The six flags of \<open>generateRoutes\<close> and its \<open>if\<close>/\<open>else if\<close> chain. \<open>NoBranch\<close> is the
  fall-through of the chain, where \<open>url\<close> keeps its initial value, the empty string. The
  variable \<open>isLogin\<close> of the source is never read.
\<close>

datatype Branch = MainIndex | SubIndex | MainHtmls | SubHtmls | MainFiles | SubFiles | NoBranch

definition select_branch :: "bool \<Rightarrow> bool \<Rightarrow> bool \<Rightarrow> bool \<Rightarrow> bool \<Rightarrow> bool \<Rightarrow> Branch" where
  "select_branch mainIndex subIndex mainHtmls subHtmls mainFiles subFiles =
     (if mainIndex then MainIndex
      else if subIndex then SubIndex
      else if mainHtmls then MainHtmls
      else if subHtmls then SubHtmls
      else if mainFiles then MainFiles
      else if subFiles then SubFiles
      else NoBranch)"

definition file_branch :: "string \<Rightarrow> ParsedPath \<Rightarrow> Branch" where
  "file_branch static_dir parsed =
     (let d = dir parsed; b = ParsedPath.base parsed; e = ext parsed;
          mainIndex = (d = static_dir \<and> b = ''index.html'');
          subIndex = (d \<noteq> static_dir \<and> b = ''index.html'');
          mainHtmls = (d = static_dir \<and> e = ''.html'');
          subHtmls = (d \<noteq> static_dir \<and> e = ''.html'');
          mainFiles = (d = static_dir \<and> e \<noteq> ''.html'');
          subFiles = (d \<noteq> static_dir \<and> e \<noteq> ''.html'')
      in select_branch mainIndex subIndex mainHtmls subHtmls mainFiles subFiles)"

text \<open>\<open>_dir.split("/").slice(1).join("/")\<close>\<close>

definition dir_name :: "string \<Rightarrow> string" where
  "dir_name d = join_with ''/'' (drop 1 (split_on CHR ''/'' d))"

definition branch_url :: "string \<Rightarrow> ParsedPath \<Rightarrow> Branch \<Rightarrow> string" where
  "branch_url rootpath parsed b =
     (case b of
        MainIndex \<Rightarrow> rootpath
      | SubIndex \<Rightarrow> path_join [rootpath, dir_name (dir parsed)]
      | MainHtmls \<Rightarrow> path_join [rootpath, name parsed]
      | SubHtmls \<Rightarrow> path_join [rootpath, dir_name (dir parsed), name parsed]
      | MainFiles \<Rightarrow> path_join [rootpath, ParsedPath.base parsed]
      | SubFiles \<Rightarrow> path_join [rootpath, dir_name (dir parsed), ParsedPath.base parsed]
      | NoBranch \<Rightarrow> [])"

text \<open>
  The accumulator of the \<open>reduce\<close>: the routes so far and the memo table \<open>mimeCache\<close> of the
  enclosing function. \<open>mimeCalls\<close> is not in the source: it records, in order, the
  extensions the resolver was invoked with.
\<close>

record Acc =
  routes :: "RouteObject list"
  mimeCache :: "string \<rightharpoonup> MimeInfo"
  mimeCalls :: "string list"

definition route_step :: "Env \<Rightarrow> string \<Rightarrow> string \<Rightarrow> Acc \<Rightarrow> string \<Rightarrow> Acc" where
  "route_step env rootpath static_dir acc f =
     (let relative = path_relative (process_cwd env) (process_cwd env) f;
          parsed = path_parse relative;
          e = ext parsed;
          hit = mimeCache acc e;
          m = (case hit of Some v \<Rightarrow> v | None \<Rightarrow> mimeType env e);
          u = branch_url rootpath parsed (file_branch static_dir parsed);
          route = \<lparr>file = f,
                   url = u,
                   mime = (case type m of Some t \<Rightarrow> t | None \<Rightarrow> []),
                   typeofMime = (case typeOf m of Some t \<Rightarrow> t | None \<Rightarrow> []),
                   base = ParsedPath.base parsed\<rparr>
      in \<lparr>routes = routes acc @ [route],
          mimeCache = (case hit of Some v \<Rightarrow> mimeCache acc | None \<Rightarrow> (mimeCache acc)(e \<mapsto> m)),
          mimeCalls = (case hit of Some v \<Rightarrow> mimeCalls acc | None \<Rightarrow> mimeCalls acc @ [e])\<rparr>)"

definition generateRoutes :: "Env \<Rightarrow> GenerateRoutes \<Rightarrow> Acc" where
  "generateRoutes env options =
     (let warn = (case warning options of Some w \<Rightarrow> w | None \<Rightarrow> False);
          rootpath = (case rootPath options of
                        Some r \<Rightarrow> if r \<noteq> [] then r else ''/''
                      | None \<Rightarrow> ''/'');
          files = getFiles env (staticDir options) (fileExt options) warn (ignore options);
          static_dir = (case staticDir options of Some d \<Rightarrow> d | None \<Rightarrow> ''.'')
      in foldl (route_step env rootpath static_dir)
           \<lparr>routes = [], mimeCache = Map.empty, mimeCalls = []\<rparr> files)"

section \<open>Serving requests\<close>

text \<open>
  The request exposes \<open>method\<close> and \<open>url\<close> (the field \<open>req_url\<close>); the response its \<open>statusCode\<close> and the body it was
  ended with (\<open>None\<close> while it has not been ended). \<open>store\<close> is the module-level object
  imported from the package \<open>store\<close>: one key-value table for the whole process, read with
  \<open>store.get\<close> (undefined for an absent key) and written with \<open>store.set\<close>; what is read
  back and passed through \<open>Buffer.from\<close> is the bytes that were written. \<open>stdout\<close> holds
  the lines written by \<open>console.log\<close>. Both live in the process, outside any handler.
  The disk maps a path to the content of the file there.
\<close>

record IncomingMessage =
  "method" :: string
  req_url :: string

record ServerResponse =
  statusCode :: nat
  body :: "bytes option"

record Process =
  store :: "string \<rightharpoonup> bytes"
  stdout :: "string list"

type_synonym disk = "string \<rightharpoonup> bytes"

datatype Failure = ReadFileRejected string

text \<open>
  \<open>sendFile\<close> sets the status and pipes a read stream of the file into the response: the
  response ends with the content of the file.
\<close>

definition sendFile :: "disk \<Rightarrow> string \<Rightarrow> ServerResponse \<Rightarrow> ServerResponse" where
  "sendFile d f res = res\<lparr>statusCode := 200, body := d f\<rparr>"

definition send404 :: "string \<Rightarrow> ServerResponse \<Rightarrow> ServerResponse" where
  "send404 html res = res\<lparr>statusCode := 404, body := Some html\<rparr>"

definition sendContent :: "bytes \<Rightarrow> ServerResponse \<Rightarrow> ServerResponse" where
  "sendContent content res = res\<lparr>statusCode := 200, body := Some content\<rparr>"

definition log_line :: "IncomingMessage \<Rightarrow> ServerResponse \<Rightarrow> string" where
  "log_line request response =
     method request @ '' '' @ req_url request @ '' '' @ string_of_nat (statusCode response)"

text \<open>
  The function returned by \<open>burmaStatic\<close>, for the route table \<open>rts\<close> it closes over. A
  rejected \<open>readFile\<close> rejects the handler's promise: nothing is stored, sent or logged.
\<close>

definition handler ::
  "RouteObject list \<Rightarrow> disk \<Rightarrow> IncomingMessage \<Rightarrow> ServerResponse \<Rightarrow> Process
     \<Rightarrow> (Failure + ServerResponse) \<times> Process"
where
  "handler rts d request response pr =
     (case find (\<lambda>i. url i = req_url request) rts of
        None \<Rightarrow> (Inr (send404 html404 response), pr)
      | Some found \<Rightarrow>
          (case store pr (url found) of
             Some cached \<Rightarrow>
               (let res = sendContent cached response
                in (Inr res,
                    pr\<lparr>stdout := stdout pr @ [log_line request res @ '' (from cache)'']\<rparr>))
           | None \<Rightarrow>
               (case d (file found) of
                  None \<Rightarrow> (Inl (ReadFileRejected (file found)), pr)
                | Some content \<Rightarrow>
                    (let pr' = pr\<lparr>store := (store pr)(url found \<mapsto> content)\<rparr>;
                         res = sendFile d (file found) response
                     in (Inr res, pr'\<lparr>stdout := stdout pr' @ [log_line request res]\<rparr>)))))"

definition burmaStatic ::
  "Env \<Rightarrow> GenerateRoutes \<Rightarrow> disk \<Rightarrow> IncomingMessage \<Rightarrow> ServerResponse \<Rightarrow> Process
     \<Rightarrow> (Failure + ServerResponse) \<times> Process"
where
  "burmaStatic env options =
     (let routeObj = generateRoutes env
                       \<lparr>rootPath = rootPath options, staticDir = staticDir options,
                        fileExt = fileExt options, warning = warning options,
                        ignore = ignore options\<rparr>
      in handler (routes routeObj))"

section \<open>Quantities used in the statements\<close>

text \<open>The extension \<open>generateRoutes\<close> sees for a file: \<open>parsed.ext\<close>.\<close>

definition file_ext :: "Env \<Rightarrow> string \<Rightarrow> string" where
  "file_ext env f = ext (path_parse (path_relative (process_cwd env) (process_cwd env) f))"

text \<open>Two invariants of the \<open>reduce\<close> in \<open>generateRoutes\<close>.\<close>

definition urls_assigned :: "Acc \<Rightarrow> bool" where
  "urls_assigned acc = list_all (\<lambda>r. url r \<noteq> []) (routes acc)"

definition memo_ok :: "Env \<Rightarrow> Acc \<Rightarrow> bool" where
  "memo_ok env acc \<longleftrightarrow>
     distinct (mimeCalls acc) \<and> dom (mimeCache acc) = set (mimeCalls acc) \<and>
     (\<forall>e \<in> set (mimeCalls acc). mimeCache acc e = Some (mimeType env e)) \<and>
     (\<forall>r \<in> set (routes acc).
        file_ext env (file r) \<in> set (mimeCalls acc) \<and>
        mime r = (case type (mimeType env (file_ext env (file r))) of Some t \<Rightarrow> t | None \<Rightarrow> []) \<and>
        typeofMime r =
          (case typeOf (mimeType env (file_ext env (file r))) of Some t \<Rightarrow> t | None \<Rightarrow> []))"

section \<open>A sample site\<close>

text \<open>
  A working directory \<open>/srv/site\<close> with files at its root, under \<open>public/\<close> and under
  \<open>docs/\<close>. The glob expansion answers the three patterns these directories give rise to,
  directories included; the resolver knows \<open>.html\<close> only.
\<close>

definition no_options :: GenerateRoutes where
  "no_options =
     \<lparr>rootPath = None, staticDir = None, fileExt = None, warning = None, ignore = None\<rparr>"

definition public_options :: GenerateRoutes where
  "public_options = no_options\<lparr>staticDir := Some ''public''\<rparr>"

definition docs_options :: GenerateRoutes where
  "docs_options = no_options\<lparr>staticDir := Some ''docs''\<rparr>"

definition site_env :: Env where
  "site_env =
     \<lparr>process_cwd = ''/srv/site'',
      fs_globSync = (\<lambda>p.
        if p = ''/srv/site/**/*'' then
          [''/srv/site/index.html'', ''/srv/site/blog'', ''/srv/site/blog/index.html'',
           ''/srv/site/about.html'', ''/srv/site/logo.png'', ''/srv/site/assets'',
           ''/srv/site/assets/logo.png'', ''/srv/site/package.json'']
        else if p = ''/srv/site/public/**/*'' then
          [''/srv/site/public/index.html'', ''/srv/site/public/blog'',
           ''/srv/site/public/blog/index.html'', ''/srv/site/public/about.html'',
           ''/srv/site/public/logo.png'', ''/srv/site/public/assets'',
           ''/srv/site/public/assets/logo.png'']
        else if p = ''/srv/site/docs/**/*'' then [''/srv/site/docs/index.html'']
        else []),
      fs_isFile = (\<lambda>p. p \<notin> {''/srv/site/blog'', ''/srv/site/assets'',
                              ''/srv/site/public/blog'', ''/srv/site/public/assets''}),
      mimeType = (\<lambda>e. if e = ''.html''
                       then \<lparr>type = Some ''text/html'', typeOf = Some ''text''\<rparr>
                       else \<lparr>type = None, typeOf = None\<rparr>)\<rparr>"

definition site_disk :: disk where
  "site_disk =
     [''/srv/site/public/index.html'' \<mapsto> ''<h1>public</h1>'',
      ''/srv/site/docs/index.html'' \<mapsto> ''<h1>docs</h1>'']"

definition about_disk :: disk where
  "about_disk = [''/srv/site/public/about.html'' \<mapsto> ''<p>about</p>'']"

text \<open>Two files of \<open>public/\<close>, \<open>about.html\<close> and \<open>about\<close>, that get the same url.\<close>

definition about_routes :: "RouteObject list" where
  "about_routes =
     [\<lparr>file = ''/srv/site/public/about.html'', url = ''/about'', mime = ''text/html'',
       typeofMime = ''text'', base = ''about.html''\<rparr>,
      \<lparr>file = ''/srv/site/public/about'', url = ''/about'', mime = [],
       typeofMime = [], base = ''about''\<rparr>]"

definition get :: "string \<Rightarrow> IncomingMessage" where
  "get u = \<lparr>method = ''GET'', req_url = u\<rparr>"

definition fresh_response :: ServerResponse where
  "fresh_response = \<lparr>statusCode = 200, body = None\<rparr>"

definition fresh_process :: Process where
  "fresh_process = \<lparr>store = Map.empty, stdout = []\<rparr>"

definition cached_process :: Process where
  "cached_process = \<lparr>store = [''/about'' \<mapsto> ''<p>old</p>''], stdout = []\<rparr>"

text \<open>A disk that holds both files of \<open>about_routes\<close>, with different content.\<close>

definition two_about_disk :: disk where
  "two_about_disk =
     [''/srv/site/public/about.html'' \<mapsto> ''<p>about</p>'',
      ''/srv/site/public/about'' \<mapsto> ''plain about'']"


section \<open>The ignore list\<close>








section \<open>The glob pattern\<close>

text \<open>
  Claim C10. \<open>createPattern\<close> tells an empty extension list from an absent one: for the
  empty list the pattern is the directory followed by \<open>/**/*.{}\<close>, for an absent list it
  is the directory followed by \<open>/**/*\<close>, the two differ, and no present list, empty or
  not, yields the match-all pattern. (Which files the glob expansion matches with a
  pattern is decided by the runtime, outside the program.)
\<close>

theorem createPattern_empty_list:
  "createPattern d (Some []) = d @ ''/**/*.{}'' \<and>
   createPattern d None = d @ ''/**/*'' \<and>
   createPattern d (Some []) \<noteq> createPattern d None \<and>
   (createPattern d e = d @ ''/**/*'') = (e = None)"
proof -
  have a: "createPattern d (Some []) = d @ ''/**/*.{}''"
    by (simp add: createPattern_def)
  have b: "createPattern d None = d @ ''/**/*''"
    by (simp add: createPattern_def)
  have c: "createPattern d (Some l) \<noteq> d @ ''/**/*''" for l
    by (simp add: createPattern_def Let_def)
  have e: "(createPattern d e = d @ ''/**/*'') = (e = None)"
    using b c by (cases e) auto
  from a b c e show ?thesis by metis
qed

section \<open>The classification chain\<close>

lemma path_normalize_nonempty: "path_normalize p \<noteq> []"
  by (simp add: path_normalize_def Let_def)

lemma path_join_nonempty: "path_join args \<noteq> []"
  by (simp add: path_join_def Let_def path_normalize_nonempty)

lemma file_branch_table:
  "file_branch static_dir parsed =
     (if dir parsed = static_dir then
        (if ParsedPath.base parsed = ''index.html'' then MainIndex
         else if ext parsed = ''.html'' then MainHtmls else MainFiles)
      else
        (if ParsedPath.base parsed = ''index.html'' then SubIndex
         else if ext parsed = ''.html'' then SubHtmls else SubFiles))"
  by (simp add: file_branch_def select_branch_def Let_def)

lemma file_branch_fires: "file_branch static_dir parsed \<noteq> NoBranch"
  by (simp add: file_branch_table)

lemma branch_url_nonempty:
  "rootpath \<noteq> [] \<Longrightarrow> b \<noteq> NoBranch \<Longrightarrow> branch_url rootpath parsed b \<noteq> []"
  by (cases b) (simp_all add: branch_url_def path_join_nonempty)

lemma routes_route_step:
  "routes (route_step env rootpath static_dir acc f) =
     routes acc @
       [\<lparr>file = f,
         url = (let parsed = path_parse (path_relative (process_cwd env) (process_cwd env) f)
                in branch_url rootpath parsed (file_branch static_dir parsed)),
         mime = (case type (case mimeCache acc (file_ext env f) of
                              Some v \<Rightarrow> v | None \<Rightarrow> mimeType env (file_ext env f)) of
                   Some t \<Rightarrow> t | None \<Rightarrow> []),
         typeofMime = (case typeOf (case mimeCache acc (file_ext env f) of
                              Some v \<Rightarrow> v | None \<Rightarrow> mimeType env (file_ext env f)) of
                   Some t \<Rightarrow> t | None \<Rightarrow> []),
         base = ParsedPath.base
                  (path_parse (path_relative (process_cwd env) (process_cwd env) f))\<rparr>]"
  unfolding file_ext_def by (simp add: route_step_def Let_def)

lemma urls_assigned_step:
  "rootpath \<noteq> [] \<Longrightarrow> urls_assigned acc \<Longrightarrow>
   urls_assigned (route_step env rootpath static_dir acc f)"
  by (simp add: urls_assigned_def routes_route_step Let_def branch_url_nonempty
      file_branch_fires)

lemma urls_assigned_foldl:
  "rootpath \<noteq> [] \<Longrightarrow> urls_assigned acc \<Longrightarrow>
   urls_assigned (foldl (route_step env rootpath static_dir) acc fs)"
  by (induction fs arbitrary: acc) (simp_all add: urls_assigned_step)

text \<open>
  Claim C9. The \<open>if\<close>/\<open>else if\<close> chain of \<open>generateRoutes\<close> is exhaustive. Whatever the
  parsed path and the static directory, the chain takes one of its six branches, decided by
  placement first and then by index before extension, and never falls through; hence
  every route \<open>generateRoutes\<close> produces has a url that some branch assigned, and that url
  is not the empty string \<open>url\<close> starts with.
\<close>

theorem chain_exhaustive:
  "file_branch static_dir parsed =
     (if dir parsed = static_dir then
        (if ParsedPath.base parsed = ''index.html'' then MainIndex
         else if ext parsed = ''.html'' then MainHtmls else MainFiles)
      else
        (if ParsedPath.base parsed = ''index.html'' then SubIndex
         else if ext parsed = ''.html'' then SubHtmls else SubFiles)) \<and>
   file_branch static_dir parsed \<in>
     {MainIndex, SubIndex, MainHtmls, SubHtmls, MainFiles, SubFiles} \<and>
   file_branch static_dir parsed \<noteq> NoBranch \<and>
   (\<forall>r \<in> set (routes (generateRoutes env options)). url r \<noteq> [])"
proof -
  have t: "file_branch static_dir parsed =
     (if dir parsed = static_dir then
        (if ParsedPath.base parsed = ''index.html'' then MainIndex
         else if ext parsed = ''.html'' then MainHtmls else MainFiles)
      else
        (if ParsedPath.base parsed = ''index.html'' then SubIndex
         else if ext parsed = ''.html'' then SubHtmls else SubFiles))"
    by (rule file_branch_table)
  have a: "file_branch static_dir parsed \<noteq> NoBranch"
    by (rule file_branch_fires)
  then have b: "file_branch static_dir parsed \<in>
      {MainIndex, SubIndex, MainHtmls, SubHtmls, MainFiles, SubFiles}"
    by (cases "file_branch static_dir parsed") simp_all
  have "urls_assigned (generateRoutes env options)"
    unfolding generateRoutes_def Let_def
    by (rule urls_assigned_foldl) (simp_all add: urls_assigned_def split: option.splits)
  then have c: "\<forall>r \<in> set (routes (generateRoutes env options)). url r \<noteq> []"
    by (simp add: urls_assigned_def list_all_iff)
  from t a b c show ?thesis by blast
qed

text \<open>
  The chain on \<open>blog/index.html\<close> with the default static directory, and the routes of the
  sample site generated with no options.
\<close>

theorem chain_exhaustive_witness:
  "file_branch ''.'' (path_parse ''blog/index.html'') = SubIndex \<and>
   file_branch ''.'' (path_parse ''blog/index.html'') \<noteq> NoBranch \<and>
   list_all (\<lambda>r. url r \<noteq> []) (routes (generateRoutes site_env no_options))"
proof -
  have "file_branch ''.'' (path_parse ''blog/index.html'') = SubIndex"
    by code_simp
  then show ?thesis
    using chain_exhaustive [where static_dir = "''.''"
        and parsed = "path_parse ''blog/index.html''" and env = site_env
        and options = no_options]
    by (simp add: list_all_iff)
qed

section \<open>The memo table of the MIME resolver\<close>

lemma mimeCache_route_step:
  "mimeCache (route_step env rootpath static_dir acc f) =
     (case mimeCache acc (file_ext env f) of
        Some v \<Rightarrow> mimeCache acc
      | None \<Rightarrow> (mimeCache acc)(file_ext env f \<mapsto> mimeType env (file_ext env f)))"
  by (simp add: route_step_def Let_def file_ext_def split: option.splits)

lemma mimeCalls_route_step:
  "mimeCalls (route_step env rootpath static_dir acc f) =
     (case mimeCache acc (file_ext env f) of
        Some v \<Rightarrow> mimeCalls acc
      | None \<Rightarrow> mimeCalls acc @ [file_ext env f])"
  by (simp add: route_step_def Let_def file_ext_def split: option.splits)

lemma memo_ok_step:
  assumes "memo_ok env acc"
  shows "memo_ok env (route_step env rootpath static_dir acc f)"
proof (cases "mimeCache acc (file_ext env f)")
  case None
  then have "file_ext env f \<notin> set (mimeCalls acc)"
    using assms by (auto simp: memo_ok_def)
  with None assms show ?thesis
    by (auto simp: memo_ok_def routes_route_step mimeCache_route_step mimeCalls_route_step)
next
  case (Some v)
  then have "file_ext env f \<in> set (mimeCalls acc)"
    using assms by (auto simp: memo_ok_def)
  moreover from this have "v = mimeType env (file_ext env f)"
    using assms Some by (auto simp: memo_ok_def)
  ultimately show ?thesis
    using Some assms
    by (auto simp: memo_ok_def routes_route_step mimeCache_route_step mimeCalls_route_step)
qed

lemma memo_ok_foldl:
  "memo_ok env acc \<Longrightarrow> memo_ok env (foldl (route_step env rootpath static_dir) acc fs)"
  by (induction fs arbitrary: acc) (simp_all add: memo_ok_step)

lemma mimeCalls_foldl:
  "memo_ok env acc \<Longrightarrow>
   set (mimeCalls (foldl (route_step env rootpath static_dir) acc fs)) =
     set (mimeCalls acc) \<union> file_ext env ` set fs"
proof (induction fs arbitrary: acc)
  case Nil
  then show ?case by simp
next
  case (Cons f fs)
  have "memo_ok env (route_step env rootpath static_dir acc f)"
    using Cons.prems by (rule memo_ok_step)
  from Cons.IH [OF this] show ?case
    using Cons.prems
    by (auto simp: mimeCalls_route_step memo_ok_def split: option.splits)
qed

text \<open>
  Claim C8. In one run of \<open>generateRoutes\<close> the resolver is invoked at most once for each
  extension: the list of its invocations has no repetition, and holds exactly the
  extensions of the collected files. Every route carries what the resolver returns for
  the extension of its file, with the empty string in \<open>mime\<close> where \<open>type\<close> is undefined
  and in \<open>typeofMime\<close> where \<open>typeOf\<close> is undefined; the run does not fail.
\<close>

theorem mime_memoized:
  "distinct (mimeCalls (generateRoutes env options)) \<and>
   set (mimeCalls (generateRoutes env options)) =
     file_ext env ` set (getFiles env (staticDir options) (fileExt options)
        (case warning options of Some w \<Rightarrow> w | None \<Rightarrow> False) (ignore options)) \<and>
   (\<forall>r \<in> set (routes (generateRoutes env options)).
      mime r = (case type (mimeType env (file_ext env (file r))) of
                  Some t \<Rightarrow> t | None \<Rightarrow> []) \<and>
      typeofMime r = (case typeOf (mimeType env (file_ext env (file r))) of
                        Some t \<Rightarrow> t | None \<Rightarrow> []) \<and>
      (type (mimeType env (file_ext env (file r))) = None \<longrightarrow> mime r = []) \<and>
      (typeOf (mimeType env (file_ext env (file r))) = None \<longrightarrow> typeofMime r = []))"
proof -
  let ?start = "\<lparr>routes = [], mimeCache = Map.empty, mimeCalls = []\<rparr>"
  have start: "memo_ok env ?start"
    by (simp add: memo_ok_def)
  have ok: "memo_ok env (generateRoutes env options)"
    unfolding generateRoutes_def Let_def by (rule memo_ok_foldl [OF start])
  have calls: "set (mimeCalls (generateRoutes env options)) =
     file_ext env ` set (getFiles env (staticDir options) (fileExt options)
        (case warning options of Some w \<Rightarrow> w | None \<Rightarrow> False) (ignore options))"
    unfolding generateRoutes_def Let_def by (simp add: mimeCalls_foldl [OF start])
  from ok calls show ?thesis
    by (auto simp: memo_ok_def)
qed

text \<open>
  The sample site under \<open>public/\<close>: three \<open>.html\<close> files and two \<open>.png\<close> files, two
  invocations of the resolver, and empty strings for \<open>.png\<close>, which it does not know.
\<close>

theorem mime_memoized_witness:
  "distinct (mimeCalls (generateRoutes site_env public_options)) \<and>
   mimeCalls (generateRoutes site_env public_options) = [''.html'', ''.png''] \<and>
   map (\<lambda>r. (base r, mime r, typeofMime r)) (routes (generateRoutes site_env public_options)) =
     [(''index.html'', ''text/html'', ''text''), (''index.html'', ''text/html'', ''text''),
      (''about.html'', ''text/html'', ''text''), (''logo.png'', [], []),
      (''logo.png'', [], [])]"
proof -
  have d: "distinct (mimeCalls (generateRoutes site_env public_options))"
    using mime_memoized [where env = site_env and options = public_options]
    by (rule conjunct1)
  have c: "mimeCalls (generateRoutes site_env public_options) = [''.html'', ''.png'']"
    by code_simp
  have m: "map (\<lambda>r. (base r, mime r, typeofMime r))
             (routes (generateRoutes site_env public_options)) =
     [(''index.html'', ''text/html'', ''text''), (''index.html'', ''text/html'', ''text''),
      (''about.html'', ''text/html'', ''text''), (''logo.png'', [], []),
      (''logo.png'', [], [])]"
    by code_simp
  from d c m show ?thesis by blast
qed

section \<open>The url of a route\<close>

text \<open>
  With a static directory named by one segment the routes follow the classification
  table: here the sample site under \<open>public/\<close>.
\<close>

lemma named_staticDir_urls:
  "map (\<lambda>r. (file r, url r)) (routes (generateRoutes site_env public_options)) =
     [(''/srv/site/public/index.html'', ''/''),
      (''/srv/site/public/blog/index.html'', path_join [''/'', ''blog'']),
      (''/srv/site/public/about.html'', path_join [''/'', ''about'']),
      (''/srv/site/public/logo.png'', path_join [''/'', ''logo.png'']),
      (''/srv/site/public/assets/logo.png'', path_join [''/'', ''assets'', ''logo.png''])]"
  by code_simp

text \<open>
  Claim C1. The claim asks for the classification table also under the default static
  directory \<open>.\<close>: \<open>index.html\<close> in \<open>blog\<close> at \<open>join(rootPath, "blog")\<close> and \<open>logo.png\<close> in
  \<open>assets\<close> at \<open>join(rootPath, "assets", "logo.png")\<close>. The program does otherwise. With no
  options, the directory of a file at the root parses to the empty string, which never
  equals \<open>.\<close>, so every file takes a sub-directory branch, and that branch drops the first
  segment of the directory: \<open>blog/index.html\<close> is routed at \<open>/\<close>, the url of the root
  \<open>index.html\<close>, and \<open>assets/logo.png\<close> at \<open>/logo.png\<close>, the url of the root \<open>logo.png\<close>.
\<close>

theorem default_staticDir_urls:
  "map (\<lambda>r. (file r, url r)) (routes (generateRoutes site_env no_options)) =
     [(''/srv/site/index.html'', ''/''),
      (''/srv/site/blog/index.html'', ''/''),
      (''/srv/site/about.html'', ''/about''),
      (''/srv/site/logo.png'', ''/logo.png''),
      (''/srv/site/assets/logo.png'', ''/logo.png'')] \<and>
   path_join [''/'', ''blog''] = ''/blog'' \<and>
   path_join [''/'', ''assets'', ''logo.png''] = ''/assets/logo.png''"
proof -
  have r: "map (\<lambda>r. (file r, url r)) (routes (generateRoutes site_env no_options)) =
     [(''/srv/site/index.html'', ''/''),
      (''/srv/site/blog/index.html'', ''/''),
      (''/srv/site/about.html'', ''/about''),
      (''/srv/site/logo.png'', ''/logo.png''),
      (''/srv/site/assets/logo.png'', ''/logo.png'')]"
    by code_simp
  have b: "path_join [''/'', ''blog''] = ''/blog''"
    by code_simp
  have a: "path_join [''/'', ''assets'', ''logo.png''] = ''/assets/logo.png''"
    by code_simp
  from r b a show ?thesis by blast
qed

section \<open>The request handler\<close>

lemma string_of_nat_200: "string_of_nat 200 = ''200''"
  by code_simp

lemma options_eta:
  "\<lparr>rootPath = rootPath options, staticDir = staticDir options, fileExt = fileExt options,
    warning = warning options, ignore = ignore options\<rparr> = (options :: GenerateRoutes)"
  by simp

lemma burmaStatic_handler:
  "burmaStatic env options = handler (routes (generateRoutes env options))"
  by (simp add: burmaStatic_def Let_def options_eta)

lemma find_url: "find (\<lambda>i. url i = u) rts = Some found \<Longrightarrow> url found = u"
  by (auto simp: find_Some_iff)

lemma find_first:
  "n < length rts \<Longrightarrow> P (rts ! n) \<Longrightarrow> (\<forall>m<n. \<not> P (rts ! m)) \<Longrightarrow>
   find P rts = Some (rts ! n)"
  by (auto simp: find_Some_iff)

lemma handler_cong_find:
  "find (\<lambda>i. url i = req_url request) rts = find (\<lambda>i. url i = req_url request) rts' \<Longrightarrow>
   handler rts d request response pr = handler rts' d request response pr"
  by (simp add: handler_def)

lemma handler_no_route:
  "find (\<lambda>i. url i = req_url request) rts = None \<Longrightarrow>
   handler rts d request response pr =
     (Inr (response\<lparr>statusCode := 404, body := Some html404\<rparr>), pr)"
  by (simp add: handler_def send404_def)

lemma handler_hit:
  "find (\<lambda>i. url i = req_url request) rts = Some found \<Longrightarrow>
   store pr (url found) = Some cached \<Longrightarrow>
   handler rts d request response pr =
     (Inr (response\<lparr>statusCode := 200, body := Some cached\<rparr>),
      pr\<lparr>stdout := stdout pr @
         [method request @ '' '' @ req_url request @ '' 200 (from cache)'']\<rparr>)"
  by (simp add: handler_def sendContent_def log_line_def string_of_nat_200 Let_def)

lemma handler_miss:
  "find (\<lambda>i. url i = req_url request) rts = Some found \<Longrightarrow>
   store pr (url found) = None \<Longrightarrow> d (file found) = Some content \<Longrightarrow>
   handler rts d request response pr =
     (Inr (response\<lparr>statusCode := 200, body := Some content\<rparr>),
      pr\<lparr>store := (store pr)(url found \<mapsto> content),
         stdout := stdout pr @ [method request @ '' '' @ req_url request @ '' 200'']\<rparr>)"
  by (simp add: handler_def sendFile_def log_line_def string_of_nat_200 Let_def)

lemma handler_rejected:
  "find (\<lambda>i. url i = req_url request) rts = Some found \<Longrightarrow>
   store pr (url found) = None \<Longrightarrow> d (file found) = None \<Longrightarrow>
   handler rts d request response pr = (Inl (ReadFileRejected (file found)), pr)"
  by (simp add: handler_def)

lemma handler_twice:
  assumes f: "find (\<lambda>i. url i = u) rts = Some found"
    and ua: "req_url req_a = u" and ub: "req_url req_b = u"
    and fresh: "store pr u = None"
    and readable: "disk_a (file found) = Some content"
  shows "handler rts disk_a req_a res_a pr =
           (Inr (res_a\<lparr>statusCode := 200, body := Some content\<rparr>),
            pr\<lparr>store := (store pr)(u \<mapsto> content),
               stdout := stdout pr @ [method req_a @ '' '' @ u @ '' 200'']\<rparr>)"
    and "handler rts disk_b req_b res_b (snd (handler rts disk_a req_a res_a pr)) =
           (Inr (res_b\<lparr>statusCode := 200, body := Some content\<rparr>),
            pr\<lparr>store := (store pr)(u \<mapsto> content),
               stdout := stdout pr @ [method req_a @ '' '' @ u @ '' 200'',
                                      method req_b @ '' '' @ u @ '' 200 (from cache)'']\<rparr>)"
proof -
  have uf: "url found = u"
    using f by (rule find_url)
  show first: "handler rts disk_a req_a res_a pr =
           (Inr (res_a\<lparr>statusCode := 200, body := Some content\<rparr>),
            pr\<lparr>store := (store pr)(u \<mapsto> content),
               stdout := stdout pr @ [method req_a @ '' '' @ u @ '' 200'']\<rparr>)"
    using handler_miss [of req_a rts found pr disk_a content res_a] f ua fresh readable uf
    by simp
  show "handler rts disk_b req_b res_b (snd (handler rts disk_a req_a res_a pr)) =
           (Inr (res_b\<lparr>statusCode := 200, body := Some content\<rparr>),
            pr\<lparr>store := (store pr)(u \<mapsto> content),
               stdout := stdout pr @ [method req_a @ '' '' @ u @ '' 200'',
                                      method req_b @ '' '' @ u @ '' 200 (from cache)'']\<rparr>)"
    using handler_hit [of req_b rts found
        "pr\<lparr>store := (store pr)(u \<mapsto> content),
            stdout := stdout pr @ [method req_a @ '' '' @ u @ '' 200'']\<rparr>" content disk_b res_b]
      f ub uf
    by (simp add: first)
qed

lemma find_root_public:
  "find (\<lambda>i. url i = ''/'') (routes (generateRoutes site_env public_options)) =
     Some \<lparr>file = ''/srv/site/public/index.html'', url = ''/'', mime = ''text/html'',
           typeofMime = ''text'', base = ''index.html''\<rparr>"
  by code_simp

lemma find_root_docs:
  "find (\<lambda>i. url i = ''/'') (routes (generateRoutes site_env docs_options)) =
     Some \<lparr>file = ''/srv/site/docs/index.html'', url = ''/'', mime = ''text/html'',
           typeofMime = ''text'', base = ''index.html''\<rparr>"
  by code_simp

lemma find_missing_public:
  "find (\<lambda>i. url i = req_url (get ''/missing''))
     (routes (generateRoutes site_env public_options)) = None"
  by code_simp

lemma handler_selected:
  assumes f: "find (\<lambda>i. url i = req_url request) rts = Some found"
  shows "handler rts d request response pr =
     (case store pr (req_url request) of
        Some cached \<Rightarrow>
          (Inr (response\<lparr>statusCode := 200, body := Some cached\<rparr>),
           pr\<lparr>stdout := stdout pr @
              [method request @ '' '' @ req_url request @ '' 200 (from cache)'']\<rparr>)
      | None \<Rightarrow>
          (case d (file found) of
             None \<Rightarrow> (Inl (ReadFileRejected (file found)), pr)
           | Some content \<Rightarrow>
               (Inr (response\<lparr>statusCode := 200, body := Some content\<rparr>),
                pr\<lparr>store := (store pr)(req_url request \<mapsto> content),
                   stdout := stdout pr @
                     [method request @ '' '' @ req_url request @ '' 200'']\<rparr>)))"
proof -
  have u: "url found = req_url request"
    using f by (rule find_url)
  show ?thesis
  proof (cases "store pr (req_url request)")
    case (Some cached)
    then show ?thesis
      using handler_hit [OF f, of pr cached d response] u by simp
  next
    case None
    show ?thesis
    proof (cases "d (file found)")
      case miss: None
      then show ?thesis
        using handler_rejected [OF f, of pr d response] None u by simp
    next
      case (Some content)
      then show ?thesis
        using handler_miss [OF f, of pr d content response] None u by simp
    qed
  qed
qed



subsection \<open>Requests without a route\<close>

text \<open>
  Claim C7. When no generated route has the request's url, the handler, whatever the
  request's method, sets the status to 404 and ends the response with the embedded 404
  document, and the process (the cache and the log) is as before. The route table is the
  constant the handler closes over: it is read by the lookup and nothing writes to it.
\<close>

theorem not_found_404:
  "\<forall>r \<in> set (routes (generateRoutes env options)). url r \<noteq> req_url request \<Longrightarrow>
   burmaStatic env options d request response pr =
     (Inr (response\<lparr>statusCode := 404, body := Some html404\<rparr>), pr)"
proof -
  assume "\<forall>r \<in> set (routes (generateRoutes env options)). url r \<noteq> req_url request"
  then have "find (\<lambda>i. url i = req_url request) (routes (generateRoutes env options)) = None"
    by (simp add: find_None_iff)
  then show ?thesis
    by (simp add: burmaStatic_handler handler_no_route)
qed

text \<open>A \<open>DELETE\<close> of a path the sample site under \<open>public/\<close> has no route for.\<close>

theorem not_found_404_witness:
  "burmaStatic site_env public_options site_disk
     \<lparr>method = ''DELETE'', req_url = ''/missing''\<rparr> fresh_response fresh_process =
   (Inr \<lparr>statusCode = 404, body = Some html404\<rparr>, fresh_process)"
proof -
  have h: "\<forall>r \<in> set (routes (generateRoutes site_env public_options)).
             url r \<noteq> req_url \<lparr>method = ''DELETE'', req_url = ''/missing''\<rparr>"
    by code_simp
  show ?thesis
    using not_found_404 [OF h, where d = site_disk and response = fresh_response
        and pr = fresh_process]
    by (simp add: fresh_response_def)
qed

subsection \<open>Finding the route\<close>

text \<open>
  Claim C6. The handler selects the first route of the table, in table order, whose url
  equals the request's url. If the route at position \<open>n\<close> has the request's url and no
  earlier route has it, the lookup returns that route, the handler behaves as if the table
  held that route alone, and its answer is the answer for that route: the cached content
  of the url if there is one, and otherwise the content of the file of the route at
  position \<open>n\<close>, read from disk and stored in the cache (the request is rejected when
  that file cannot be read). The comparison is equality of strings, nothing is
  normalized: if no route has exactly the request's url, the lookup fails and the answer
  is the 404 document.
\<close>

theorem first_exact_match:
  "(n < length rts \<and> url (rts ! n) = req_url request \<and>
      (\<forall>m<n. url (rts ! m) \<noteq> req_url request) \<longrightarrow>
      find (\<lambda>i. url i = req_url request) rts = Some (rts ! n) \<and>
      handler rts d request response pr = handler [rts ! n] d request response pr \<and>
      handler rts d request response pr =
        (case store pr (req_url request) of
           Some cached \<Rightarrow>
             (Inr (response\<lparr>statusCode := 200, body := Some cached\<rparr>),
              pr\<lparr>stdout := stdout pr @
                 [method request @ '' '' @ req_url request @ '' 200 (from cache)'']\<rparr>)
         | None \<Rightarrow>
             (case d (file (rts ! n)) of
                None \<Rightarrow> (Inl (ReadFileRejected (file (rts ! n))), pr)
              | Some content \<Rightarrow>
                  (Inr (response\<lparr>statusCode := 200, body := Some content\<rparr>),
                   pr\<lparr>store := (store pr)(req_url request \<mapsto> content),
                      stdout := stdout pr @
                        [method request @ '' '' @ req_url request @ '' 200'']\<rparr>)))) \<and>
   ((\<forall>r \<in> set rts. url r \<noteq> req_url request) \<longrightarrow>
      find (\<lambda>i. url i = req_url request) rts = None \<and>
      handler rts d request response pr =
        (Inr (response\<lparr>statusCode := 404, body := Some html404\<rparr>), pr))"
proof (intro conjI impI)
  assume a: "n < length rts \<and> url (rts ! n) = req_url request \<and>
      (\<forall>m<n. url (rts ! m) \<noteq> req_url request)"
  then show f: "find (\<lambda>i. url i = req_url request) rts = Some (rts ! n)"
    by (intro find_first) auto
  from a have "find (\<lambda>i. url i = req_url request) [rts ! n] = Some (rts ! n)"
    by simp
  with f show "handler rts d request response pr = handler [rts ! n] d request response pr"
    by (intro handler_cong_find) simp
  from f show "handler rts d request response pr =
        (case store pr (req_url request) of
           Some cached \<Rightarrow>
             (Inr (response\<lparr>statusCode := 200, body := Some cached\<rparr>),
              pr\<lparr>stdout := stdout pr @
                 [method request @ '' '' @ req_url request @ '' 200 (from cache)'']\<rparr>)
         | None \<Rightarrow>
             (case d (file (rts ! n)) of
                None \<Rightarrow> (Inl (ReadFileRejected (file (rts ! n))), pr)
              | Some content \<Rightarrow>
                  (Inr (response\<lparr>statusCode := 200, body := Some content\<rparr>),
                   pr\<lparr>store := (store pr)(req_url request \<mapsto> content),
                      stdout := stdout pr @
                        [method request @ '' '' @ req_url request @ '' 200'']\<rparr>)))"
    by (rule handler_selected)
next
  assume b: "\<forall>r \<in> set rts. url r \<noteq> req_url request"
  then show f: "find (\<lambda>i. url i = req_url request) rts = None"
    by (simp add: find_None_iff)
  then show "handler rts d request response pr =
        (Inr (response\<lparr>statusCode := 404, body := Some html404\<rparr>), pr)"
    by (rule handler_no_route)
qed

text \<open>
  Two routes with the url \<open>/about\<close> and different files: \<open>/about\<close> is answered with the
  file of the first one (or with the cache), and \<open>/About\<close>, \<open>/about/\<close> and \<open>/about?x=1\<close>
  get the 404 document.
\<close>

theorem first_exact_match_witness:
  "handler about_routes two_about_disk (get ''/about'') fresh_response fresh_process =
     (Inr \<lparr>statusCode = 200, body = Some ''<p>about</p>''\<rparr>,
      \<lparr>store = [''/about'' \<mapsto> ''<p>about</p>''], stdout = [''GET /about 200'']\<rparr>) \<and>
   handler about_routes two_about_disk (get ''/about'') fresh_response cached_process =
     (Inr \<lparr>statusCode = 200, body = Some ''<p>old</p>''\<rparr>,
      \<lparr>store = [''/about'' \<mapsto> ''<p>old</p>''],
       stdout = [''GET /about 200 (from cache)'']\<rparr>) \<and>
   handler about_routes two_about_disk (get ''/about'') fresh_response fresh_process =
     handler [about_routes ! 0] two_about_disk (get ''/about'') fresh_response fresh_process \<and>
   file (about_routes ! 0) = ''/srv/site/public/about.html'' \<and>
   handler about_routes two_about_disk (get ''/About'') fresh_response fresh_process =
     (Inr \<lparr>statusCode = 404, body = Some html404\<rparr>, fresh_process) \<and>
   handler about_routes two_about_disk (get ''/about/'') fresh_response fresh_process =
     (Inr \<lparr>statusCode = 404, body = Some html404\<rparr>, fresh_process) \<and>
   handler about_routes two_about_disk (get ''/about?x=1'') fresh_response fresh_process =
     (Inr \<lparr>statusCode = 404, body = Some html404\<rparr>, fresh_process)"
  using
    first_exact_match [where n = 0 and rts = about_routes and request = "get ''/about''"
      and d = two_about_disk and response = fresh_response and pr = fresh_process]
    first_exact_match [where n = 0 and rts = about_routes and request = "get ''/about''"
      and d = two_about_disk and response = fresh_response and pr = cached_process]
    first_exact_match [where n = 0 and rts = about_routes and request = "get ''/About''"
      and d = two_about_disk and response = fresh_response and pr = fresh_process]
    first_exact_match [where n = 0 and rts = about_routes and request = "get ''/about/''"
      and d = two_about_disk and response = fresh_response and pr = fresh_process]
    first_exact_match [where n = 0 and rts = about_routes and request = "get ''/about?x=1''"
      and d = two_about_disk and response = fresh_response and pr = fresh_process]
  by (simp add: about_routes_def two_about_disk_def get_def fresh_response_def
      fresh_process_def cached_process_def handler_def sendFile_def sendContent_def
      log_line_def string_of_nat_200)

subsection \<open>The log\<close>

text \<open>
  Claim C3, as amended. A request that is served logs exactly one line, \<open>METHOD URL 200\<close>,
  followed by \<open> (from cache)\<close> when the content came from the cache and by nothing when
  it was read from disk. A request that is not served logs nothing: neither the request
  without a route, answered with 404, nor the request whose file cannot be read.
\<close>

theorem log_line_when_served:
  "(find (\<lambda>i. url i = req_url request) rts = Some found \<and>
      store pr (url found) = Some cached \<longrightarrow>
      stdout (snd (handler rts d request response pr)) =
        stdout pr @ [method request @ '' '' @ req_url request @ '' 200 (from cache)'']) \<and>
   (find (\<lambda>i. url i = req_url request) rts = Some found \<and>
      store pr (url found) = None \<and> d (file found) = Some content \<longrightarrow>
      stdout (snd (handler rts d request response pr)) =
        stdout pr @ [method request @ '' '' @ req_url request @ '' 200'']) \<and>
   (find (\<lambda>i. url i = req_url request) rts = Some found \<and>
      store pr (url found) = None \<and> d (file found) = None \<longrightarrow>
      stdout (snd (handler rts d request response pr)) = stdout pr) \<and>
   (find (\<lambda>i. url i = req_url request) rts = None \<longrightarrow>
      fst (handler rts d request response pr) =
        Inr (response\<lparr>statusCode := 404, body := Some html404\<rparr>) \<and>
      stdout (snd (handler rts d request response pr)) = stdout pr)"
proof (intro conjI impI)
  assume "find (\<lambda>i. url i = req_url request) rts = Some found \<and>
      store pr (url found) = Some cached"
  then show "stdout (snd (handler rts d request response pr)) =
        stdout pr @ [method request @ '' '' @ req_url request @ '' 200 (from cache)'']"
    by (simp add: handler_hit)
next
  assume "find (\<lambda>i. url i = req_url request) rts = Some found \<and>
      store pr (url found) = None \<and> d (file found) = Some content"
  then show "stdout (snd (handler rts d request response pr)) =
        stdout pr @ [method request @ '' '' @ req_url request @ '' 200'']"
    by (simp add: handler_miss)
next
  assume "find (\<lambda>i. url i = req_url request) rts = Some found \<and>
      store pr (url found) = None \<and> d (file found) = None"
  then show "stdout (snd (handler rts d request response pr)) = stdout pr"
    by (simp add: handler_rejected)
next
  assume n: "find (\<lambda>i. url i = req_url request) rts = None"
  then show "fst (handler rts d request response pr) =
        Inr (response\<lparr>statusCode := 404, body := Some html404\<rparr>)"
    by (simp add: handler_no_route)
  from n show "stdout (snd (handler rts d request response pr)) = stdout pr"
    by (simp add: handler_no_route)
qed

text \<open>
  The four cases on the table with \<open>/about\<close>: served from the cache, served from disk,
  file unreadable, no route.
\<close>

theorem log_line_when_served_witness:
  "stdout (snd (handler about_routes about_disk (get ''/about'') fresh_response
      cached_process)) = [''GET /about 200 (from cache)''] \<and>
   stdout (snd (handler about_routes about_disk (get ''/about'') fresh_response
      fresh_process)) = [''GET /about 200''] \<and>
   stdout (snd (handler about_routes Map.empty (get ''/about'') fresh_response
      fresh_process)) = [] \<and>
   stdout (snd (handler about_routes about_disk (get ''/nothing'') fresh_response
      fresh_process)) = []"
  using
    log_line_when_served [where request = "get ''/about''" and rts = about_routes
      and found = "about_routes ! 0" and pr = cached_process and cached = "''<p>old</p>''"
      and d = about_disk and response = fresh_response and content = "''<p>about</p>''"]
    log_line_when_served [where request = "get ''/about''" and rts = about_routes
      and found = "about_routes ! 0" and pr = fresh_process and cached = "''<p>old</p>''"
      and d = about_disk and response = fresh_response and content = "''<p>about</p>''"]
    log_line_when_served [where request = "get ''/about''" and rts = about_routes
      and found = "about_routes ! 0" and pr = fresh_process and cached = "''<p>old</p>''"
      and d = Map.empty and response = fresh_response and content = "''<p>about</p>''"]
    log_line_when_served [where request = "get ''/nothing''" and rts = about_routes
      and found = "about_routes ! 0" and pr = fresh_process and cached = "''<p>old</p>''"
      and d = about_disk and response = fresh_response and content = "''<p>about</p>''"]
  by (simp add: about_routes_def about_disk_def get_def fresh_process_def cached_process_def)

text \<open>
  Claim C3 as stated fails: the request for \<open>/missing\<close> is answered with 404 and the log
  is as before, so it has not grown by one line.
\<close>

theorem no_log_line_on_404:
  "fst (burmaStatic site_env public_options site_disk (get ''/missing'') fresh_response
     fresh_process) = Inr \<lparr>statusCode = 404, body = Some html404\<rparr> \<and>
   stdout (snd (burmaStatic site_env public_options site_disk (get ''/missing'')
     fresh_response fresh_process)) = stdout fresh_process \<and>
   length (stdout (snd (burmaStatic site_env public_options site_disk (get ''/missing'')
     fresh_response fresh_process))) \<noteq> length (stdout fresh_process) + 1"
  by (simp add: burmaStatic_handler handler_no_route [OF find_missing_public]
      fresh_response_def)

subsection \<open>The cache\<close>




text \<open>
  Claim C2, as amended. The cache is one table of the process, read and written by every
  handler. When a handler serves a url from disk, the entry it writes is what any handler
  with a route for that url, made by another call of \<open>burmaStatic\<close> or not, answers the
  next request for the url with: the first handler's content, with status 200 and the
  log line tagged \<open>(from cache)\<close>, whatever file its own route names.
\<close>

theorem store_shared_by_handlers:
  assumes "find (\<lambda>i. url i = u) (routes (generateRoutes env_a opts_a)) = Some found_a"
    and "find (\<lambda>i. url i = u) (routes (generateRoutes env_b opts_b)) = Some found_b"
    and "req_url req_a = u" and "req_url req_b = u"
    and "store pr u = None"
    and "disk_a (file found_a) = Some content"
  shows "burmaStatic env_b opts_b disk_b req_b res_b
           (snd (burmaStatic env_a opts_a disk_a req_a res_a pr)) =
         (Inr (res_b\<lparr>statusCode := 200, body := Some content\<rparr>),
          pr\<lparr>store := (store pr)(u \<mapsto> content),
             stdout := stdout pr @ [method req_a @ '' '' @ u @ '' 200'',
                                    method req_b @ '' '' @ u @ '' 200 (from cache)'']\<rparr>)"
proof -
  have ub: "url found_b = u"
    using assms(2) by (rule find_url)
  have first: "handler (routes (generateRoutes env_a opts_a)) disk_a req_a res_a pr =
           (Inr (res_a\<lparr>statusCode := 200, body := Some content\<rparr>),
            pr\<lparr>store := (store pr)(u \<mapsto> content),
               stdout := stdout pr @ [method req_a @ '' '' @ u @ '' 200'']\<rparr>)"
    using handler_twice(1) [where disk_a = disk_a and res_a = res_a,
        OF assms(1) assms(3) assms(3) assms(5) assms(6)]
    by simp
  show ?thesis
    using handler_hit [of req_b "routes (generateRoutes env_b opts_b)" found_b
        "pr\<lparr>store := (store pr)(u \<mapsto> content),
            stdout := stdout pr @ [method req_a @ '' '' @ u @ '' 200'']\<rparr>" content disk_b res_b]
      assms(2,4) ub
    by (simp add: first burmaStatic_handler)
qed

text \<open>
  The handler for \<open>docs/\<close>, asked for \<open>/\<close> after the handler for \<open>public/\<close> served \<open>/\<close>.
\<close>

theorem store_shared_by_handlers_witness:
  "burmaStatic site_env docs_options site_disk (get ''/'') fresh_response
     (snd (burmaStatic site_env public_options site_disk (get ''/'') fresh_response
        fresh_process)) =
   (Inr \<lparr>statusCode = 200, body = Some ''<h1>public</h1>''\<rparr>,
    \<lparr>store = [''/'' \<mapsto> ''<h1>public</h1>''],
     stdout = [''GET / 200'', ''GET / 200 (from cache)'']\<rparr>)"
proof -
  have u: "req_url (get ''/'') = ''/''"
    by (simp add: get_def)
  have s: "store fresh_process ''/'' = None"
    by (simp add: fresh_process_def)
  have c: "site_disk (file \<lparr>file = ''/srv/site/public/index.html'', url = ''/'',
             mime = ''text/html'', typeofMime = ''text'', base = ''index.html''\<rparr>) =
           Some ''<h1>public</h1>''"
    by (simp add: site_disk_def)
  show ?thesis
    using store_shared_by_handlers [where disk_a = site_disk and disk_b = site_disk
        and res_a = fresh_response and res_b = fresh_response,
        OF find_root_public find_root_docs u u s c]
    by (simp add: fresh_response_def fresh_process_def get_def)
qed

text \<open>
  Claim C2 as stated fails. On a fresh process the handler for \<open>docs/\<close> answers \<open>/\<close> with
  its own file; after the handler for \<open>public/\<close> has served \<open>/\<close>, it answers with the
  content of the other handler's file.
\<close>

theorem handlers_not_isolated:
  "fst (burmaStatic site_env docs_options site_disk (get ''/'') fresh_response
     fresh_process) = Inr \<lparr>statusCode = 200, body = Some ''<h1>docs</h1>''\<rparr> \<and>
   fst (burmaStatic site_env docs_options site_disk (get ''/'') fresh_response
     (snd (burmaStatic site_env public_options site_disk (get ''/'') fresh_response
        fresh_process))) = Inr \<lparr>statusCode = 200, body = Some ''<h1>public</h1>''\<rparr> \<and>
   fst (burmaStatic site_env docs_options site_disk (get ''/'') fresh_response
     (snd (burmaStatic site_env public_options site_disk (get ''/'') fresh_response
        fresh_process))) \<noteq>
   fst (burmaStatic site_env docs_options site_disk (get ''/'') fresh_response
     fresh_process)"
proof -
  have a: "burmaStatic site_env docs_options site_disk (get ''/'') fresh_response
     fresh_process =
     (Inr \<lparr>statusCode = 200, body = Some ''<h1>docs</h1>''\<rparr>,
      \<lparr>store = [''/'' \<mapsto> ''<h1>docs</h1>''], stdout = [''GET / 200'']\<rparr>)"
    by (simp add: burmaStatic_handler handler_def find_root_docs get_def fresh_process_def
        fresh_response_def site_disk_def sendFile_def log_line_def string_of_nat_200)
  have b: "burmaStatic site_env public_options site_disk (get ''/'') fresh_response
     fresh_process =
     (Inr \<lparr>statusCode = 200, body = Some ''<h1>public</h1>''\<rparr>,
      \<lparr>store = [''/'' \<mapsto> ''<h1>public</h1>''], stdout = [''GET / 200'']\<rparr>)"
    by (simp add: burmaStatic_handler handler_def find_root_public get_def fresh_process_def
        fresh_response_def site_disk_def sendFile_def log_line_def string_of_nat_200)
  have c: "burmaStatic site_env docs_options site_disk (get ''/'') fresh_response
      \<lparr>store = [''/'' \<mapsto> ''<h1>public</h1>''], stdout = [''GET / 200'']\<rparr> =
     (Inr \<lparr>statusCode = 200, body = Some ''<h1>public</h1>''\<rparr>,
      \<lparr>store = [''/'' \<mapsto> ''<h1>public</h1>''],
       stdout = [''GET / 200'', ''GET / 200 (from cache)'']\<rparr>)"
    by (simp add: burmaStatic_handler handler_def find_root_docs get_def fresh_response_def
        sendContent_def log_line_def string_of_nat_200)
  show ?thesis
    by (simp add: a b c)
qed

end
